theory Spec2Isabelle
  imports Main
begin

section \<open>Python values, exceptions and strings\<close>

text \<open>
  The script \<^verbatim>\<open>automation/fetch_access_token.py\<close> is one sequential pipeline:
  \<^verbatim>\<open>load_config\<close>, \<^verbatim>\<open>login_and_get_request_token\<close>, \<^verbatim>\<open>generate_access_token\<close>,
  \<^verbatim>\<open>notify_backend\<close>. Python strings are modelled as \<open>string\<close> (code points below 256),
  dictionaries as maps, exceptions as values of \<open>py_exn\<close>, and every effect on the outside
  world (browser, SDK, file, HTTP, sleep, stdout) as an entry of a trace.
\<close>

datatype pyval =
    PNone
  | PBool bool
  | PInt int
  | PStr string
  | PList "pyval list"
  | PDict "(string \<times> pyval) list"

text \<open>Python truthiness, as \<^verbatim>\<open>not x\<close> and \<^verbatim>\<open>if x:\<close> test it.\<close>

fun truthy :: "pyval \<Rightarrow> bool" where
  "truthy PNone = False"
| "truthy (PBool b) = b"
| "truthy (PInt i) = (i \<noteq> 0)"
| "truthy (PStr s) = (s \<noteq> [])"
| "truthy (PList xs) = (xs \<noteq> [])"
| "truthy (PDict kvs) = (kvs \<noteq> [])"

text \<open>\<^verbatim>\<open>type(x).__name__\<close>, as error messages of Python quote it.\<close>

fun type_name :: "pyval \<Rightarrow> string" where
  "type_name PNone = ''NoneType''"
| "type_name (PBool b) = ''bool''"
| "type_name (PInt i) = ''int''"
| "type_name (PStr s) = ''str''"
| "type_name (PList xs) = ''list''"
| "type_name (PDict kvs) = ''dict''"

text \<open>
  The exceptions the script raises itself (\<open>ValueError\<close>, \<open>RuntimeError\<close>), the ones
  Python raises for it (\<open>KeyError\<close>, \<open>TypeError\<close>, \<open>OverflowError\<close>),
  \<^verbatim>\<open>requests.RequestException\<close> with all its
  subclasses (connection errors, timeouts, ...), and any other exception of a library.
  Each carries its message, \<^verbatim>\<open>str(exc)\<close>.
\<close>

datatype py_exn =
    ValueError string
  | RuntimeError string
  | KeyError string
  | TypeError string
  | OverflowError string
  | RequestException string
  | OtherException string

fun is_RequestException :: "py_exn \<Rightarrow> bool" where
  "is_RequestException (RequestException m) = True"
| "is_RequestException e = False"

fun exn_text :: "py_exn \<Rightarrow> string" where
  "exn_text (ValueError m) = m"
| "exn_text (RuntimeError m) = m"
| "exn_text (KeyError m) = m"
| "exn_text (TypeError m) = m"
| "exn_text (OverflowError m) = m"
| "exn_text (RequestException m) = m"
| "exn_text (OtherException m) = m"

text \<open>
  \<^verbatim>\<open>str.strip()\<close> without arguments removes leading and trailing whitespace. Among the code
  points below 256 Python's \<^verbatim>\<open>str.isspace\<close> holds for 9..13, 28..31, 32, 133 and 160.
\<close>

definition py_isspace :: "char \<Rightarrow> bool" where
  "py_isspace c = ((of_char c :: nat) \<in> {9, 10, 11, 12, 13, 28, 29, 30, 31, 32, 133, 160})"

definition py_strip :: "string \<Rightarrow> string" where
  "py_strip s = rev (dropWhile py_isspace (rev (dropWhile py_isspace s)))"

text \<open>\<^verbatim>\<open>x or y\<close> on strings, and \<^verbatim>\<open>x or None\<close>.\<close>

definition str_or :: "string \<Rightarrow> string \<Rightarrow> string" where
  "str_or x y = (if x = [] then y else x)"

definition str_or_None :: "string \<Rightarrow> string option" where
  "str_or_None x = (if x = [] then None else Some x)"

text \<open>
  \<^verbatim>\<open>repr\<close> of a list of strings that hold no quote, backslash or control character (the
  field names of the configuration): \<^verbatim>\<open>['api_key', 'password']\<close>.
\<close>

fun join_comma :: "string list \<Rightarrow> string" where
  "join_comma [] = []"
| "join_comma [x] = x"
| "join_comma (x # y # ys) = x @ '', '' @ join_comma (y # ys)"

definition repr_names :: "string list \<Rightarrow> string" where
  "repr_names names =
     ''['' @ join_comma (map (\<lambda>n. [CHR 0x27] @ n @ [CHR 0x27]) names) @ '']''"

text \<open>
  \<^verbatim>\<open>str(KeyError(k))\<close> is the \<^verbatim>\<open>repr\<close> of the key, for a key without quote, backslash or
  control character.
\<close>

definition key_error :: "string \<Rightarrow> py_exn" where
  "key_error k = KeyError ([CHR 0x27] @ k @ [CHR 0x27])"

text \<open>
  \<^verbatim>\<open>time.sleep(secs)\<close> on an integer (CPython 3.11): the delay is first converted to a
  signed 64-bit count of nanoseconds, which raises \<open>OverflowError\<close> beyond 9223372036
  seconds on either side; a negative delay then raises \<open>ValueError\<close>; otherwise the call
  sleeps. \<open>None\<close> stands for having slept.
\<close>

definition sleep_limit :: int where
  "sleep_limit = 9223372036"

definition time_sleep :: "int \<Rightarrow> py_exn option" where
  "time_sleep secs =
     (if secs < - sleep_limit \<or> sleep_limit < secs
      then Some (OverflowError ''timestamp too large to convert to C _PyTime_t'')
      else if secs < 0
      then Some (ValueError ''sleep length must be non-negative'')
      else None)"

section \<open>Configuration\<close>

definition KITE_LOGIN_URL :: "string \<Rightarrow> string" where
  "KITE_LOGIN_URL api_key' = ''https://kite.trade/connect/login?api_key='' @ api_key' @ ''&v=3''"

definition DEFAULT_BACKEND_UPDATE_URL :: string where
  "DEFAULT_BACKEND_UPDATE_URL =
     ''https://web-production-de0bc.up.railway.app'' @ ''/api/modules/auth/broker/token/update''"

record ZerodhaConfig =
  api_key :: string
  api_secret :: string
  totp_secret :: string
  user_id :: string
  password :: string
  token_output_path :: "string option"
  backend_update_url :: string
  backend_source_label :: string

text \<open>
  The process environment as \<^verbatim>\<open>os.getenv\<close> sees it once \<^verbatim>\<open>load_dotenv()\<close> has merged the
  \<^verbatim>\<open>.env\<close> file into it.
\<close>

type_synonym environ = "string \<rightharpoonup> string"

definition getenv :: "environ \<Rightarrow> string \<Rightarrow> string \<Rightarrow> string" where
  "getenv env k dflt = (case env k of None \<Rightarrow> dflt | Some v \<Rightarrow> v)"

text \<open>\<^verbatim>\<open>vars(cfg).items()\<close>: the fields in declaration order, \<open>None\<close> as \<open>PNone\<close>.\<close>

definition vars_items :: "ZerodhaConfig \<Rightarrow> (string \<times> pyval) list" where
  "vars_items cfg =
     [(''api_key'', PStr (api_key cfg)),
      (''api_secret'', PStr (api_secret cfg)),
      (''totp_secret'', PStr (totp_secret cfg)),
      (''user_id'', PStr (user_id cfg)),
      (''password'', PStr (password cfg)),
      (''token_output_path'',
         (case token_output_path cfg of None \<Rightarrow> PNone | Some p \<Rightarrow> PStr p)),
      (''backend_update_url'', PStr (backend_update_url cfg)),
      (''backend_source_label'', PStr (backend_source_label cfg))]"

definition missing_names :: "ZerodhaConfig \<Rightarrow> string list" where
  "missing_names cfg =
     map fst (filter (\<lambda>(name, v). (v = PStr [] \<or> v = PNone)
                        \<and> name \<notin> {''token_output_path'', ''backend_source_label''})
                     (vars_items cfg))"

definition env_config :: "environ \<Rightarrow> ZerodhaConfig" where
  "env_config env =
     \<lparr> api_key = py_strip (getenv env ''Z_API_KEY'' []),
       api_secret = py_strip (getenv env ''Z_API_SECRET'' []),
       totp_secret = py_strip (getenv env ''Z_TOTP_SECRET'' []),
       user_id = py_strip (getenv env ''Z_USER_ID'' []),
       password = py_strip (getenv env ''Z_PASSWORD'' []),
       token_output_path = str_or_None (py_strip (getenv env ''TOKEN_OUTPUT_PATH'' [])),
       backend_update_url =
         str_or (py_strip (getenv env ''BACKEND_UPDATE_URL'' [])) DEFAULT_BACKEND_UPDATE_URL,
       backend_source_label =
         str_or (getenv env ''BACKEND_SOURCE_LABEL'' ''automation'') ''automation'' \<rparr>"

definition load_config :: "environ \<Rightarrow> py_exn + ZerodhaConfig" where
  "load_config env =
     (let cfg = env_config env;
          missing = missing_names cfg
      in if missing \<noteq> []
         then Inl (ValueError (''Missing required config values: '' @ repr_names missing))
         else Inr cfg)"

section \<open>The outside world and the trace of effects\<close>

text \<open>
  What \<^verbatim>\<open>print\<close> writes, kept structured: one constructor per message of the script.
\<close>

datatype message =
    Starting
  | RequestTokenReceived string
  | AccessTokenGenerated
  | UpdateSucceeded pyval
  | UpdateFailed int int string
  | UpdateException int string
  | Retrying int
  | AllDone

type_synonym payload = "(string \<times> pyval) list"

text \<open>
  One entry per call that leaves the process: the browser session on the login URL, the
  SDK's \<^verbatim>\<open>generate_session(request_token, api_secret)\<close> on a client of the API key, opening a
  file for writing (which truncates it), writing to it, \<^verbatim>\<open>requests.post(url, json, timeout)\<close>,
  \<^verbatim>\<open>time.sleep\<close> and \<^verbatim>\<open>print\<close>.
\<close>

datatype event =
    BrowserLogin string
  | KiteGenerateSession string string string
  | FileOpen string
  | FileWrite string string
  | HttpPost string payload int
  | Sleep int
  | Print message

text \<open>
  A \<^verbatim>\<open>requests.Response\<close>: the status, the body text, and what \<^verbatim>\<open>response.json()\<close> does on
  that body (the parsed value, or the exception it raises when the body is not JSON).
  \<^verbatim>\<open>Response.ok\<close> is false exactly when \<^verbatim>\<open>raise_for_status()\<close> raises, that is for a status
  from 400 to 599.
\<close>

record response =
  status_code :: int
  resp_text :: string
  resp_json :: "py_exn + pyval"

definition ok :: "response \<Rightarrow> bool" where
  "ok r = (\<not> (400 \<le> status_code r \<and> status_code r < 600))"

datatype post_outcome = Returned response | Raised py_exn

type_synonym session = "string \<rightharpoonup> pyval"

text \<open>
  The answers of the outside world: the browser dialogue of
  \<^verbatim>\<open>login_and_get_request_token\<close> on a login URL (the request token, or an exception), the
  SDK's token exchange, whether a path opens for writing, and the outcome of the \<open>n\<close>-th
  HTTP POST of the run (counted from 0).
\<close>

record world =
  browser_login :: "string \<Rightarrow> py_exn + string"
  kite_generate_session :: "string \<Rightarrow> string \<Rightarrow> string \<Rightarrow> py_exn + session"
  file_open :: "string \<Rightarrow> py_exn option"
  http_post :: "nat \<Rightarrow> post_outcome"

text \<open>A computation: its trace, and the exception it raised or the value it returned.\<close>

type_synonym 'a io = "event list \<times> (py_exn + 'a)"

fun prepend :: "event list \<Rightarrow> 'a io \<Rightarrow> 'a io" where
  "prepend t (t', r) = (t @ t', r)"

fun bind_io :: "'a io \<Rightarrow> ('a \<Rightarrow> 'b io) \<Rightarrow> 'b io" where
  "bind_io (t, Inl e) f = (t, Inl e)"
| "bind_io (t, Inr x) f = prepend t (f x)"

section \<open>Browser login and token exchange\<close>

definition login_and_get_request_token :: "world \<Rightarrow> ZerodhaConfig \<Rightarrow> string io" where
  "login_and_get_request_token w cfg =
     (let login_url = KITE_LOGIN_URL (api_key cfg)
      in ([BrowserLogin login_url], browser_login w login_url))"

definition generate_access_token :: "world \<Rightarrow> ZerodhaConfig \<Rightarrow> string \<Rightarrow> session io" where
  "generate_access_token w cfg request_token =
     prepend [KiteGenerateSession (api_key cfg) request_token (api_secret cfg)]
       (case kite_generate_session w (api_key cfg) request_token (api_secret cfg) of
          Inl e \<Rightarrow> ([], Inl e)
        | Inr session_data \<Rightarrow>
            (case session_data ''access_token'' of
               None \<Rightarrow> ([], Inl (key_error ''access_token''))
             | Some access_token \<Rightarrow>
                 (case token_output_path cfg of
                    None \<Rightarrow> ([], Inr session_data)
                  | Some path \<Rightarrow>
                      if path = [] then ([], Inr session_data)
                      else (case file_open w path of
                              Some e \<Rightarrow> ([], Inl e)
                            | None \<Rightarrow>
                                (case access_token of
                                   PStr s \<Rightarrow> ([FileOpen path, FileWrite path s], Inr session_data)
                                 | _ \<Rightarrow> ([FileOpen path],
                                          Inl (TypeError (''write() argument must be str, not ''
                                                            @ type_name access_token))))))))"

section \<open>Backend notification\<close>

definition dict_get :: "session \<Rightarrow> string \<Rightarrow> pyval" where
  "dict_get d k = (case d k of None \<Rightarrow> PNone | Some v \<Rightarrow> v)"

definition make_payload :: "ZerodhaConfig \<Rightarrow> session \<Rightarrow> payload" where
  "make_payload cfg session_data =
     [(''user_id'', PStr (user_id cfg)),
      (''access_token'', dict_get session_data ''access_token''),
      (''expires_in'', dict_get session_data ''expires_in''),
      (''expires_at'', dict_get session_data ''expires_at''),
      (''source'', PStr (backend_source_label cfg))]"

text \<open>
  The \<^verbatim>\<open>try\<close> block of one attempt: the POST with a 20-second timeout; on an ok response
  the success message with \<^verbatim>\<open>response.json()\<close> (evaluated before anything is printed) and
  \<^verbatim>\<open>return\<close>; otherwise the failure message. The \<^verbatim>\<open>except\<close> clause catches
  \<^verbatim>\<open>requests.RequestException\<close> only, whether \<^verbatim>\<open>requests.post\<close> or \<^verbatim>\<open>response.json()\<close> raised
  it; any other exception leaves the function.
\<close>

datatype attempt_result = Succeeded | Retry | Propagate py_exn

definition on_exception :: "string \<Rightarrow> payload \<Rightarrow> int \<Rightarrow> py_exn \<Rightarrow> event list \<times> attempt_result" where
  "on_exception url p attempt exc =
     (if is_RequestException exc
      then ([HttpPost url p 20, Print (UpdateException attempt (exn_text exc))], Retry)
      else ([HttpPost url p 20], Propagate exc))"

definition try_post :: "world \<Rightarrow> string \<Rightarrow> payload \<Rightarrow> int \<Rightarrow> nat \<Rightarrow> event list \<times> attempt_result" where
  "try_post w url p attempt sent =
     (case http_post w sent of
        Raised exc \<Rightarrow> on_exception url p attempt exc
      | Returned r \<Rightarrow>
          if ok r
          then (case resp_json r of
                  Inr j \<Rightarrow> ([HttpPost url p 20, Print (UpdateSucceeded j)], Succeeded)
                | Inl exc \<Rightarrow> on_exception url p attempt exc)
          else ([HttpPost url p 20, Print (UpdateFailed attempt (status_code r) (resp_text r))],
                Retry))"

text \<open>
  The \<^verbatim>\<open>for attempt in range(1, max_retries + 1)\<close> loop over the attempts still to come;
  \<open>sent\<close> counts the POSTs made so far. An exception of \<^verbatim>\<open>time.sleep\<close> leaves the function.
  After the last attempt the loop falls through to the terminal \<open>RuntimeError\<close>.
\<close>

fun notify_attempts ::
  "world \<Rightarrow> string \<Rightarrow> payload \<Rightarrow> int \<Rightarrow> int \<Rightarrow> nat \<Rightarrow> int list \<Rightarrow> unit io" where
  "notify_attempts w url p max_retries retry_delay sent [] =
     ([], Inl (RuntimeError ''Unable to update backend with new access token after retries''))"
| "notify_attempts w url p max_retries retry_delay sent (attempt # rest) =
     (case try_post w url p attempt sent of
        (t, Succeeded) \<Rightarrow> (t, Inr ())
      | (t, Propagate e) \<Rightarrow> (t, Inl e)
      | (t, Retry) \<Rightarrow>
          if attempt < max_retries
          then (let sleep_for = retry_delay * attempt
                in case time_sleep sleep_for of
                     Some e \<Rightarrow> (t @ [Print (Retrying sleep_for)], Inl e)
                   | None \<Rightarrow>
                       prepend (t @ [Print (Retrying sleep_for), Sleep sleep_for])
                          (notify_attempts w url p max_retries retry_delay (Suc sent) rest))
          else prepend t (notify_attempts w url p max_retries retry_delay (Suc sent) rest))"

definition notify_backend ::
  "world \<Rightarrow> ZerodhaConfig \<Rightarrow> session \<Rightarrow> int \<Rightarrow> int \<Rightarrow> unit io" where
  "notify_backend w cfg session_data max_retries retry_delay =
     (let p = make_payload cfg session_data
      in case map_of p ''access_token'' of
           None \<Rightarrow> ([], Inl (key_error ''access_token''))
         | Some tok \<Rightarrow>
             if \<not> truthy tok
             then ([], Inl (ValueError ''Session data missing access_token''))
             else notify_attempts w (backend_update_url cfg) p max_retries retry_delay 0
                    [1..max_retries])"

section \<open>The pipeline\<close>

text \<open>\<^verbatim>\<open>main\<close> calls \<^verbatim>\<open>notify_backend\<close> with its defaults, 3 retries and a delay of 5.\<close>

definition main :: "world \<Rightarrow> environ \<Rightarrow> unit io" where
  "main w env =
     (case load_config env of
        Inl e \<Rightarrow> ([], Inl e)
      | Inr cfg \<Rightarrow>
          prepend [Print Starting]
            (bind_io (login_and_get_request_token w cfg) (\<lambda>request_token.
               prepend [Print (RequestTokenReceived request_token)]
                 (bind_io (generate_access_token w cfg request_token) (\<lambda>session_data.
                    prepend [Print AccessTokenGenerated]
                      (bind_io (notify_backend w cfg session_data 3 5) (\<lambda>u.
                         ([Print AllDone], Inr ()))))))))"

section \<open>Reading traces\<close>

text \<open>The entries of a trace other than output on stdout, the POSTs, and the file operations.\<close>

fun is_effect :: "event \<Rightarrow> bool" where
  "is_effect (Print m) = False"
| "is_effect e = True"

definition effects :: "event list \<Rightarrow> event list" where
  "effects t = filter is_effect t"

fun is_post :: "event \<Rightarrow> bool" where
  "is_post (HttpPost url p timeout) = True"
| "is_post e = False"

fun is_file_event :: "event \<Rightarrow> bool" where
  "is_file_event (FileOpen path) = True"
| "is_file_event (FileWrite path s) = True"
| "is_file_event e = False"

text \<open>
  The files after a trace: opening for writing truncates, writing appends to what the
  open file holds.
\<close>

fun files_after :: "event list \<Rightarrow> (string \<rightharpoonup> string) \<Rightarrow> (string \<rightharpoonup> string)" where
  "files_after [] fs = fs"
| "files_after (FileOpen path # t) fs = files_after t (fs(path \<mapsto> []))"
| "files_after (FileWrite path s # t) fs =
     files_after t (fs(path \<mapsto> (case fs path of None \<Rightarrow> s | Some old \<Rightarrow> old @ s)))"
| "files_after (e # t) fs = files_after t fs"

text \<open>
  The failures the retry policy speaks of. A 5xx response or a connection error (a
  \<^verbatim>\<open>requests.RequestException\<close>); and, wider, every outcome of the POST itself that the loop
  answers with a retry: a response that is not ok, or a \<^verbatim>\<open>requests.RequestException\<close>.
\<close>

fun server_or_connection_error :: "post_outcome \<Rightarrow> bool" where
  "server_or_connection_error (Returned r) = (500 \<le> status_code r \<and> status_code r < 600)"
| "server_or_connection_error (Raised e) = is_RequestException e"

fun post_failed :: "post_outcome \<Rightarrow> bool" where
  "post_failed (Returned r) = (\<not> ok r)"
| "post_failed (Raised e) = is_RequestException e"

text \<open>
  Every outcome after which the \<^verbatim>\<open>try\<close> block ends in a retry, whatever the reason: the
  ones above, and an ok response on which \<^verbatim>\<open>response.json()\<close> raised a
  \<^verbatim>\<open>requests.RequestException\<close>. An attempt is reached exactly when every earlier one ended
  so.
\<close>

fun retried :: "post_outcome \<Rightarrow> bool" where
  "retried (Raised e) = is_RequestException e"
| "retried (Returned r) =
     (if ok r then (case resp_json r of Inl e \<Rightarrow> is_RequestException e | Inr j \<Rightarrow> False)
      else True)"

text \<open>The required fields with the environment variable each is read from.\<close>

definition required_fields :: "(string \<times> string) list" where
  "required_fields =
     [(''api_key'', ''Z_API_KEY''),
      (''api_secret'', ''Z_API_SECRET''),
      (''totp_secret'', ''Z_TOTP_SECRET''),
      (''user_id'', ''Z_USER_ID''),
      (''password'', ''Z_PASSWORD'')]"

definition empty_required :: "environ \<Rightarrow> string list" where
  "empty_required env =
     map fst (filter (\<lambda>(field, var). py_strip (getenv env var []) = []) required_fields)"

text \<open>
  Worlds for concrete runs: a browser that yields the given request token, an SDK that
  yields the given session, files that open, and scripted answers to the POSTs (the list,
  then the default for every later one).
\<close>

definition scripted :: "post_outcome list \<Rightarrow> post_outcome \<Rightarrow> nat \<Rightarrow> post_outcome" where
  "scripted answers dflt n = (if n < length answers then answers ! n else dflt)"

definition scripted_world ::
  "string \<Rightarrow> session \<Rightarrow> post_outcome list \<Rightarrow> post_outcome \<Rightarrow> world" where
  "scripted_world request_token session_data answers dflt =
     \<lparr> browser_login = (\<lambda>url. Inr request_token),
       kite_generate_session = (\<lambda>k t s. Inr session_data),
       file_open = (\<lambda>path. None),
       http_post = scripted answers dflt \<rparr>"

definition status_response :: "int \<Rightarrow> string \<Rightarrow> py_exn + pyval \<Rightarrow> post_outcome" where
  "status_response code body parsed =
     Returned \<lparr> status_code = code, resp_text = body, resp_json = parsed \<rparr>"

definition sample_cfg :: "string option \<Rightarrow> ZerodhaConfig" where
  "sample_cfg path =
     \<lparr> api_key = ''key'', api_secret = ''secret'', totp_secret = ''totp'', user_id = ''AB1234'',
       password = ''pw'', token_output_path = path,
       backend_update_url = ''https://backend.example/update'',
       backend_source_label = ''automation'' \<rparr>"

definition sample_session :: session where
  "sample_session = map_of [(''access_token'', PStr ''tok''), (''user_id'', PStr ''AB1234'')]"

definition sample_env :: "string \<Rightarrow> environ" where
  "sample_env key =
     map_of [(''Z_API_KEY'', key), (''Z_API_SECRET'', ''secret''), (''Z_TOTP_SECRET'', ''totp''),
             (''Z_USER_ID'', ''AB1234''), (''Z_PASSWORD'', ''pw'')]"

section \<open>Properties of the configuration\<close>

lemma py_strip_empty_iff: "py_strip s = [] \<longleftrightarrow> (\<forall>c \<in> set s. py_isspace c)"
proof -
  let ?m = "dropWhile py_isspace s"
  have "py_strip s = [] \<longleftrightarrow> dropWhile py_isspace (rev ?m) = []"
    by (simp add: py_strip_def)
  also have "\<dots> \<longleftrightarrow> ?m = []"
  proof
    assume a: "dropWhile py_isspace (rev ?m) = []"
    show "?m = []"
    proof (rule ccontr)
      assume ne: "?m \<noteq> []"
      then have "\<not> py_isspace (hd ?m)" by (rule hd_dropWhile)
      moreover have "hd ?m \<in> set (rev ?m)" using ne by simp
      ultimately show False using a by (metis dropWhile_eq_Nil_conv)
    qed
  next
    assume "?m = []"
    then show "dropWhile py_isspace (rev ?m) = []"
      by (metis dropWhile.simps(1) rev.simps(1))
  qed
  also have "\<dots> \<longleftrightarrow> (\<forall>c \<in> set s. py_isspace c)"
    by (rule dropWhile_eq_Nil_conv)
  finally show ?thesis .
qed

lemma py_strip_decomp:
  "\<exists>pre suf. s = pre @ py_strip s @ suf \<and> (\<forall>c \<in> set pre. py_isspace c) \<and> (\<forall>c \<in> set suf. py_isspace c)"
proof -
  let ?m = "dropWhile py_isspace s"
  have a: "s = takeWhile py_isspace s @ ?m" by simp
  have b: "rev ?m = takeWhile py_isspace (rev ?m) @ dropWhile py_isspace (rev ?m)" by simp
  have "?m = rev (dropWhile py_isspace (rev ?m)) @ rev (takeWhile py_isspace (rev ?m))"
    by (metis b rev_append rev_rev_ident)
  then have c: "?m = py_strip s @ rev (takeWhile py_isspace (rev ?m))"
    by (simp add: py_strip_def)
  have "s = takeWhile py_isspace s @ py_strip s @ rev (takeWhile py_isspace (rev ?m))"
    using a c by metis
  moreover have "\<forall>c \<in> set (takeWhile py_isspace s). py_isspace c"
    by (auto dest: set_takeWhileD)
  moreover have "\<forall>c \<in> set (rev (takeWhile py_isspace (rev ?m))). py_isspace c"
    by (auto dest: set_takeWhileD)
  ultimately show ?thesis by blast
qed

lemma py_strip_ends:
  assumes "py_strip s \<noteq> []"
  shows "\<not> py_isspace (hd (py_strip s)) \<and> \<not> py_isspace (last (py_strip s))"
proof -
  let ?m = "dropWhile py_isspace s"
  let ?d = "dropWhile py_isspace (rev ?m)"
  have ne: "?d \<noteq> []" using assms by (simp add: py_strip_def)
  then have l: "\<not> py_isspace (hd ?d)" by (rule hd_dropWhile)
  have "last (py_strip s) = hd ?d" using ne by (simp add: py_strip_def last_rev)
  then have A: "\<not> py_isspace (last (py_strip s))" using l by simp
  have mne: "?m \<noteq> []" using ne by (metis dropWhile.simps(1) rev.simps(1))
  then have hm: "\<not> py_isspace (hd ?m)" by (rule hd_dropWhile)
  obtain suf where "rev ?m = suf @ ?d" by (metis takeWhile_dropWhile_id)
  then have "?m = rev ?d @ rev suf" by (metis rev_append rev_rev_ident)
  then have "hd ?m = hd (rev ?d)" using ne by (metis hd_append2 rev_is_Nil_conv)
  then have "\<not> py_isspace (hd (py_strip s))" using hm by (simp add: py_strip_def)
  with A show ?thesis by simp
qed

lemma default_url_nonempty: "DEFAULT_BACKEND_UPDATE_URL \<noteq> []"
  by (simp add: DEFAULT_BACKEND_UPDATE_URL_def)

lemma backend_fields_nonempty:
  "backend_update_url (env_config env) \<noteq> [] \<and> backend_source_label (env_config env) \<noteq> []"
  by (simp add: env_config_def str_or_def default_url_nonempty)

lemma missing_names_env:
  "missing_names (env_config env) = empty_required env"
  using backend_fields_nonempty [of env]
  by (simp add: missing_names_def vars_items_def empty_required_def required_fields_def env_config_def)

lemma empty_required_nonempty_iff:
  "empty_required env \<noteq> [] \<longleftrightarrow> (\<exists>(field, var) \<in> set required_fields. py_strip (getenv env var []) = [])"
  by (simp add: empty_required_def filter_empty_conv)

lemma load_config_cases:
  "load_config env =
     (if empty_required env \<noteq> []
      then Inl (ValueError (''Missing required config values: '' @ repr_names (empty_required env)))
      else Inr (env_config env))"
  by (simp add: load_config_def Let_def missing_names_env)

text \<open>
  Claim C5. When a required field (\<open>api_key\<close>, \<open>api_secret\<close>, \<open>totp_secret\<close>, \<open>user_id\<close> or
  \<open>password\<close>) is empty after stripping, \<open>load_config\<close> raises the \<open>ValueError\<close> whose
  message lists exactly the empty required fields, and \<open>main\<close> ends with that error on an
  empty trace: no browser, SDK or HTTP call has been made.
\<close>

theorem load_config_missing_fails_fast:
  assumes "\<exists>(field, var) \<in> set required_fields. py_strip (getenv env var []) = []"
  shows "load_config env =
           Inl (ValueError (''Missing required config values: '' @ repr_names (empty_required env)))
         \<and> set (empty_required env) =
             {field. \<exists>var. (field, var) \<in> set required_fields \<and> py_strip (getenv env var []) = []}
         \<and> empty_required env \<noteq> []
         \<and> main w env =
             ([], Inl (ValueError (''Missing required config values: '' @ repr_names (empty_required env))))"
proof -
  have ne: "empty_required env \<noteq> []" using assms by (simp add: empty_required_nonempty_iff)
  then have lc: "load_config env =
           Inl (ValueError (''Missing required config values: '' @ repr_names (empty_required env)))"
    by (simp add: load_config_cases)
  have s: "set (empty_required env) =
             {field. \<exists>var. (field, var) \<in> set required_fields \<and> py_strip (getenv env var []) = []}"
    by (force simp: empty_required_def)
  have "main w env = ([], Inl (ValueError (''Missing required config values: '' @ repr_names (empty_required env))))"
    by (simp add: main_def lc)
  with ne lc s show ?thesis by simp
qed

lemmas sample_eval = sample_env_def getenv_def py_strip_def py_isspace_def required_fields_def
  empty_required_def

theorem load_config_missing_fails_fast_witness:
  "load_config (sample_env []) =
     Inl (ValueError (''Missing required config values: '' @ repr_names [''api_key'']))
   \<and> main (scripted_world ''rt'' sample_session [] (Raised (OtherException ''unreachable'')))
        (sample_env []) =
     ([], Inl (ValueError (''Missing required config values: '' @ repr_names [''api_key''])))"
proof -
  have h: "\<exists>(field, var) \<in> set required_fields. py_strip (getenv (sample_env []) var []) = []"
    by (simp add: sample_eval)
  have e: "empty_required (sample_env []) = [''api_key'']"
    by (simp add: sample_eval)
  show ?thesis
    using load_config_missing_fails_fast [OF h] e by simp
qed

text \<open>
  Claim C10, with "non-empty" read after stripping. When the five required variables are
  non-empty after stripping and \<open>BACKEND_UPDATE_URL\<close>, \<open>BACKEND_SOURCE_LABEL\<close> and
  \<open>TOKEN_OUTPUT_PATH\<close> are unset or empty, \<open>load_config\<close> returns the configuration with
  the default URL, the label \<open>automation\<close> and no output path; and no configuration that
  \<open>load_config\<close> returns has an empty backend URL or label.
\<close>

theorem load_config_defaults:
  assumes "py_strip (getenv env ''Z_API_KEY'' []) \<noteq> []"
      and "py_strip (getenv env ''Z_API_SECRET'' []) \<noteq> []"
      and "py_strip (getenv env ''Z_TOTP_SECRET'' []) \<noteq> []"
      and "py_strip (getenv env ''Z_USER_ID'' []) \<noteq> []"
      and "py_strip (getenv env ''Z_PASSWORD'' []) \<noteq> []"
      and "env ''BACKEND_UPDATE_URL'' = None \<or> env ''BACKEND_UPDATE_URL'' = Some []"
      and "env ''BACKEND_SOURCE_LABEL'' = None \<or> env ''BACKEND_SOURCE_LABEL'' = Some []"
      and "env ''TOKEN_OUTPUT_PATH'' = None \<or> env ''TOKEN_OUTPUT_PATH'' = Some []"
  shows "load_config env =
           Inr \<lparr> api_key = py_strip (getenv env ''Z_API_KEY'' []),
                 api_secret = py_strip (getenv env ''Z_API_SECRET'' []),
                 totp_secret = py_strip (getenv env ''Z_TOTP_SECRET'' []),
                 user_id = py_strip (getenv env ''Z_USER_ID'' []),
                 password = py_strip (getenv env ''Z_PASSWORD'' []),
                 token_output_path = None,
                 backend_update_url = DEFAULT_BACKEND_UPDATE_URL,
                 backend_source_label = ''automation'' \<rparr>
         \<and> DEFAULT_BACKEND_UPDATE_URL \<noteq> []
         \<and> (\<forall>env' cfg'. load_config env' = Inr cfg' \<longrightarrow>
                backend_update_url cfg' \<noteq> [] \<and> backend_source_label cfg' \<noteq> [])"
proof -
  have e: "empty_required env = []"
    using assms(1-5) by (simp add: empty_required_def required_fields_def)
  have u: "getenv env ''BACKEND_UPDATE_URL'' [] = []"
    using assms(6) by (auto simp: getenv_def)
  have l: "str_or (getenv env ''BACKEND_SOURCE_LABEL'' ''automation'') ''automation'' = ''automation''"
    using assms(7) by (auto simp: getenv_def str_or_def)
  have t: "getenv env ''TOKEN_OUTPUT_PATH'' [] = []"
    using assms(8) by (auto simp: getenv_def)
  have s: "py_strip [] = []" by (simp add: py_strip_def)
  have c: "env_config env =
           \<lparr> api_key = py_strip (getenv env ''Z_API_KEY'' []),
                 api_secret = py_strip (getenv env ''Z_API_SECRET'' []),
                 totp_secret = py_strip (getenv env ''Z_TOTP_SECRET'' []),
                 user_id = py_strip (getenv env ''Z_USER_ID'' []),
                 password = py_strip (getenv env ''Z_PASSWORD'' []),
                 token_output_path = None,
                 backend_update_url = DEFAULT_BACKEND_UPDATE_URL,
                 backend_source_label = ''automation'' \<rparr>"
    unfolding env_config_def u l t s by (simp add: str_or_def str_or_None_def)
  have n: "\<forall>env' cfg'. load_config env' = Inr cfg' \<longrightarrow>
                backend_update_url cfg' \<noteq> [] \<and> backend_source_label cfg' \<noteq> []"
    using backend_fields_nonempty by (auto simp: load_config_cases split: if_splits)
  show ?thesis
    using e c n default_url_nonempty by (simp add: load_config_cases)
qed

theorem load_config_defaults_witness:
  "load_config (sample_env ''k'') =
     Inr \<lparr> api_key = ''k'', api_secret = ''secret'', totp_secret = ''totp'',
           user_id = ''AB1234'', password = ''pw'', token_output_path = None,
           backend_update_url = DEFAULT_BACKEND_UPDATE_URL,
           backend_source_label = ''automation'' \<rparr>"
proof -
  have s: "py_strip (getenv (sample_env ''k'') ''Z_API_KEY'' []) = ''k''"
     "py_strip (getenv (sample_env ''k'') ''Z_API_SECRET'' []) = ''secret''"
     "py_strip (getenv (sample_env ''k'') ''Z_TOTP_SECRET'' []) = ''totp''"
     "py_strip (getenv (sample_env ''k'') ''Z_USER_ID'' []) = ''AB1234''"
     "py_strip (getenv (sample_env ''k'') ''Z_PASSWORD'' []) = ''pw''"
    by (simp_all add: sample_eval)
  have o: "sample_env ''k'' ''BACKEND_UPDATE_URL'' = None \<or> sample_env ''k'' ''BACKEND_UPDATE_URL'' = Some []"
     "sample_env ''k'' ''BACKEND_SOURCE_LABEL'' = None \<or> sample_env ''k'' ''BACKEND_SOURCE_LABEL'' = Some []"
     "sample_env ''k'' ''TOKEN_OUTPUT_PATH'' = None \<or> sample_env ''k'' ''TOKEN_OUTPUT_PATH'' = Some []"
    by (simp_all add: sample_env_def)
  show ?thesis
    using load_config_defaults [of "sample_env ''k''", OF _ _ _ _ _ o] s by simp
qed

text \<open>
  Claim C10 as written fails where a required variable is non-empty but all whitespace:
  the value is stripped first, and the field counts as missing.
\<close>

theorem load_config_whitespace_key_counterexample:
  "sample_env '' '' ''Z_API_KEY'' = Some '' '' \<and> '' '' \<noteq> ([] :: string)
   \<and> sample_env '' '' ''Z_API_SECRET'' = Some ''secret''
   \<and> sample_env '' '' ''Z_TOTP_SECRET'' = Some ''totp''
   \<and> sample_env '' '' ''Z_USER_ID'' = Some ''AB1234''
   \<and> sample_env '' '' ''Z_PASSWORD'' = Some ''pw''
   \<and> sample_env '' '' ''BACKEND_UPDATE_URL'' = None
   \<and> sample_env '' '' ''BACKEND_SOURCE_LABEL'' = None
   \<and> sample_env '' '' ''TOKEN_OUTPUT_PATH'' = None
   \<and> load_config (sample_env '' '') =
       Inl (ValueError (''Missing required config values: '' @ repr_names [''api_key'']))"
proof -
  have e: "empty_required (sample_env '' '') = [''api_key'']"
    by (simp add: sample_eval)
  show ?thesis
    using e by (simp add: load_config_cases sample_env_def)
qed

lemma strip_getenv_unset:
  assumes "env var = Some v" "py_strip v = []"
  shows "py_strip (getenv (env(var := None)) k []) = py_strip (getenv env k [])"
proof (cases "k = var")
  case True
  have "py_strip [] = []" by (simp add: py_strip_def)
  with True assms show ?thesis by (simp add: getenv_def)
next
  case False
  then show ?thesis by (simp add: getenv_def)
qed

lemma required_var_not_label:
  assumes "(field, var) \<in> set required_fields"
  shows "var \<noteq> ''BACKEND_SOURCE_LABEL''"
proof
  assume "var = ''BACKEND_SOURCE_LABEL''"
  with assms have "(field, ''BACKEND_SOURCE_LABEL'') \<in> set required_fields" by simp
  then show False by (simp add: required_fields_def)
qed

lemma env_config_unset_blank:
  assumes "(field, var) \<in> set required_fields" "env var = Some v" "\<forall>c \<in> set v. py_isspace c"
  shows "env_config (env(var := None)) = env_config env"
proof -
  have b: "py_strip v = []" using assms(3) by (simp add: py_strip_empty_iff)
  note s = strip_getenv_unset [of env var v, OF assms(2) b]
  have "(env(var := None)) ''BACKEND_SOURCE_LABEL'' = env ''BACKEND_SOURCE_LABEL''"
    using required_var_not_label [OF assms(1)] by simp
  then have l: "getenv (env(var := None)) ''BACKEND_SOURCE_LABEL'' ''automation'' =
             getenv env ''BACKEND_SOURCE_LABEL'' ''automation''"
    by (simp only: getenv_def)
  show ?thesis
    unfolding env_config_def s l ..
qed

text \<open>
  What \<open>load_config\<close> does strip. The fields read from \<open>Z_API_KEY\<close>,
  \<open>Z_API_SECRET\<close>, \<open>Z_TOTP_SECRET\<close>, \<open>Z_USER_ID\<close>, \<open>Z_PASSWORD\<close>, \<open>TOKEN_OUTPUT_PATH\<close> and
  \<open>BACKEND_UPDATE_URL\<close> hold the stripped values; stripping a string removes a whitespace
  prefix and a whitespace suffix and leaves no whitespace at either end; and a required
  variable that is set to whitespace only gives the same result as the variable unset,
  the \<open>ValueError\<close> that lists its field among the missing ones.
\<close>

theorem load_config_strips_whitespace:
  "(load_config env = Inr cfg \<longrightarrow>
      api_key cfg = py_strip (getenv env ''Z_API_KEY'' [])
      \<and> api_secret cfg = py_strip (getenv env ''Z_API_SECRET'' [])
      \<and> totp_secret cfg = py_strip (getenv env ''Z_TOTP_SECRET'' [])
      \<and> user_id cfg = py_strip (getenv env ''Z_USER_ID'' [])
      \<and> password cfg = py_strip (getenv env ''Z_PASSWORD'' [])
      \<and> token_output_path cfg = str_or_None (py_strip (getenv env ''TOKEN_OUTPUT_PATH'' []))
      \<and> backend_update_url cfg =
            str_or (py_strip (getenv env ''BACKEND_UPDATE_URL'' [])) DEFAULT_BACKEND_UPDATE_URL)
   \<and> (\<exists>pre suf. s = pre @ py_strip s @ suf
          \<and> (\<forall>c \<in> set pre. py_isspace c) \<and> (\<forall>c \<in> set suf. py_isspace c))
   \<and> (py_strip s \<noteq> [] \<longrightarrow>
          \<not> py_isspace (hd (py_strip s)) \<and> \<not> py_isspace (last (py_strip s)))
   \<and> ((field, var) \<in> set required_fields \<and> env var = Some v \<and> (\<forall>c \<in> set v. py_isspace c) \<longrightarrow>
          load_config env = load_config (env(var := None))
          \<and> field \<in> set (empty_required env)
          \<and> load_config env =
               Inl (ValueError (''Missing required config values: ''
                                  @ repr_names (empty_required env))))"
proof (intro conjI impI)
  assume "load_config env = Inr cfg"
  then have c: "cfg = env_config env"
    by (auto simp: load_config_cases split: if_splits)
  show "api_key cfg = py_strip (getenv env ''Z_API_KEY'' [])"
    and "api_secret cfg = py_strip (getenv env ''Z_API_SECRET'' [])"
    and "totp_secret cfg = py_strip (getenv env ''Z_TOTP_SECRET'' [])"
    and "user_id cfg = py_strip (getenv env ''Z_USER_ID'' [])"
    and "password cfg = py_strip (getenv env ''Z_PASSWORD'' [])"
    and "token_output_path cfg = str_or_None (py_strip (getenv env ''TOKEN_OUTPUT_PATH'' []))"
    and "backend_update_url cfg =
            str_or (py_strip (getenv env ''BACKEND_UPDATE_URL'' [])) DEFAULT_BACKEND_UPDATE_URL"
    by (simp_all add: c env_config_def)
next
  show "\<exists>pre suf. s = pre @ py_strip s @ suf
          \<and> (\<forall>c \<in> set pre. py_isspace c) \<and> (\<forall>c \<in> set suf. py_isspace c)"
    by (rule py_strip_decomp)
next
  assume "py_strip s \<noteq> []"
  then show "\<not> py_isspace (hd (py_strip s))" and "\<not> py_isspace (last (py_strip s))"
    by (simp_all add: py_strip_ends)
next
  assume a: "(field, var) \<in> set required_fields \<and> env var = Some v \<and> (\<forall>c \<in> set v. py_isspace c)"
  then have "env_config (env(var := None)) = env_config env"
    using env_config_unset_blank by blast
  then show "load_config env = load_config (env(var := None))"
    by (simp add: load_config_def)
  have "py_strip (getenv env var []) = []"
    using a by (simp add: getenv_def py_strip_empty_iff)
  then have m: "field \<in> set (empty_required env)"
    using a by (force simp: empty_required_def)
  then show "field \<in> set (empty_required env)" .
  from m have "empty_required env \<noteq> []" by auto
  then show "load_config env =
               Inl (ValueError (''Missing required config values: ''
                                  @ repr_names (empty_required env)))"
    by (simp add: load_config_cases)
qed


theorem load_config_strips_whitespace_witness:
  "api_key (env_config (sample_env '' k '')) = ''k''
   \<and> load_config (sample_env [CHR 0x20, CHR 0x09]) =
       load_config ((sample_env [CHR 0x20, CHR 0x09])(''Z_API_KEY'' := None))
   \<and> load_config (sample_env [CHR 0x20, CHR 0x09]) =
       Inl (ValueError (''Missing required config values: '' @ repr_names [''api_key'']))"
proof -
  have l: "load_config (sample_env '' k '') = Inr (env_config (sample_env '' k ''))"
    by (simp add: load_config_cases sample_eval)
  have h: "(''api_key'', ''Z_API_KEY'') \<in> set required_fields
           \<and> sample_env [CHR 0x20, CHR 0x09] ''Z_API_KEY'' = Some [CHR 0x20, CHR 0x09]
           \<and> (\<forall>c \<in> set [CHR 0x20, CHR 0x09]. py_isspace c)"
    by (simp add: sample_eval)
  have e: "empty_required (sample_env [CHR 0x20, CHR 0x09]) = [''api_key'']"
    by (simp add: sample_eval)
  have s: "py_strip (getenv (sample_env '' k '') ''Z_API_KEY'' []) = ''k''"
    by (simp add: sample_eval)
  note a = load_config_strips_whitespace
             [of "sample_env '' k ''" "env_config (sample_env '' k '')" "[]" "[]" "[]" "[]",
              THEN conjunct1, THEN mp, OF l, THEN conjunct1]
  note b = load_config_strips_whitespace
             [of "sample_env [CHR 0x20, CHR 0x09]" "env_config (sample_env [CHR 0x20, CHR 0x09])"
                 "[]" "''api_key''" "''Z_API_KEY''" "[CHR 0x20, CHR 0x09]",
              THEN conjunct2, THEN conjunct2, THEN conjunct2, THEN mp, OF h]
  have c: "api_key (env_config (sample_env '' k '')) = ''k''"
    using a s by (rule trans)
  note b1 = b [THEN conjunct1]
  note b3 = b [THEN conjunct2, THEN conjunct2, unfolded e]
  show ?thesis
    by (rule conjI [OF c conjI [OF b1 b3]])
qed

text \<open>
  Claim C9 at \<open>BACKEND_SOURCE_LABEL\<close>, the one value read without \<^verbatim>\<open>strip()\<close>: a label
  with surrounding whitespace is kept as it is, and a label of whitespace only is kept
  too instead of giving way to the default \<open>automation\<close>, where the sibling
  \<open>BACKEND_UPDATE_URL\<close> of whitespace only falls back to its default.
\<close>

theorem load_config_label_not_stripped:
  "load_config ((sample_env ''k'')(''BACKEND_SOURCE_LABEL'' \<mapsto> '' x '')) =
     Inr \<lparr> api_key = ''k'', api_secret = ''secret'', totp_secret = ''totp'',
           user_id = ''AB1234'', password = ''pw'', token_output_path = None,
           backend_update_url = DEFAULT_BACKEND_UPDATE_URL,
           backend_source_label = '' x '' \<rparr>
   \<and> py_strip '' x '' = ''x''
   \<and> load_config ((sample_env ''k'')(''BACKEND_SOURCE_LABEL'' \<mapsto> '' '')) =
     Inr \<lparr> api_key = ''k'', api_secret = ''secret'', totp_secret = ''totp'',
           user_id = ''AB1234'', password = ''pw'', token_output_path = None,
           backend_update_url = DEFAULT_BACKEND_UPDATE_URL,
           backend_source_label = '' '' \<rparr>
   \<and> py_strip '' '' = []
   \<and> load_config ((sample_env ''k'')(''BACKEND_UPDATE_URL'' \<mapsto> '' '')) =
     Inr \<lparr> api_key = ''k'', api_secret = ''secret'', totp_secret = ''totp'',
           user_id = ''AB1234'', password = ''pw'', token_output_path = None,
           backend_update_url = DEFAULT_BACKEND_UPDATE_URL,
           backend_source_label = ''automation'' \<rparr>"
  by (simp add: load_config_cases sample_eval env_config_def str_or_def str_or_None_def)

section \<open>Properties of the token exchange and the backend notification\<close>

lemma payload_token:
  "map_of (make_payload cfg session_data) ''access_token'' =
     Some (dict_get session_data ''access_token'')"
  by (simp add: make_payload_def)

lemma notify_backend_unfold:
  "notify_backend w cfg session_data max_retries retry_delay =
     (if \<not> truthy (dict_get session_data ''access_token'')
      then ([], Inl (ValueError ''Session data missing access_token''))
      else notify_attempts w (backend_update_url cfg) (make_payload cfg session_data)
             max_retries retry_delay 0 [1..max_retries])"
  by (simp add: notify_backend_def Let_def payload_token)

text \<open>
  Claim C3. When \<open>session_data\<close> has no key \<open>access_token\<close>, \<open>notify_backend\<close> raises
  \<open>ValueError\<close> on an empty trace, whatever the retry parameters: no POST, no sleep.
\<close>

theorem notify_backend_token_absent:
  assumes "session_data ''access_token'' = None"
  shows "notify_backend w cfg session_data max_retries retry_delay =
           ([], Inl (ValueError ''Session data missing access_token''))"
  using assms by (simp add: notify_backend_unfold dict_get_def)

theorem notify_backend_token_absent_witness:
  "notify_backend
     (scripted_world ''rt'' Map.empty [] (status_response 200 ''{}'' (Inr (PDict []))))
     (sample_cfg None) Map.empty 3 5 =
   ([], Inl (ValueError ''Session data missing access_token''))"
proof -
  have h: "(Map.empty :: session) ''access_token'' = None" by simp
  show ?thesis
    by (rule notify_backend_token_absent [where session_data = Map.empty, OF h])
qed

text \<open>
  Claim C8. When \<open>access_token\<close> is present with a falsy value, \<open>notify_backend\<close> raises the
  same \<open>ValueError\<close> on an empty trace, and behaves as on the session without the key.
\<close>

theorem notify_backend_token_falsy:
  assumes "session_data ''access_token'' = Some v" and "\<not> truthy v"
  shows "notify_backend w cfg session_data max_retries retry_delay =
           ([], Inl (ValueError ''Session data missing access_token''))
         \<and> notify_backend w cfg session_data max_retries retry_delay =
             notify_backend w cfg (session_data(''access_token'' := None)) max_retries retry_delay"
  using assms by (simp add: notify_backend_unfold dict_get_def)

theorem notify_backend_token_falsy_witness:
  "notify_backend
     (scripted_world ''rt'' sample_session [] (status_response 200 ''{}'' (Inr (PDict []))))
     (sample_cfg None) (sample_session(''access_token'' \<mapsto> PStr [])) 3 5 =
   ([], Inl (ValueError ''Session data missing access_token''))
   \<and> notify_backend
     (scripted_world ''rt'' sample_session [] (status_response 200 ''{}'' (Inr (PDict []))))
     (sample_cfg None) (sample_session(''access_token'' \<mapsto> PNone)) 3 5 =
   ([], Inl (ValueError ''Session data missing access_token''))"
proof -
  have h1: "(sample_session(''access_token'' \<mapsto> PStr [])) ''access_token'' = Some (PStr [])"
    and h2: "(sample_session(''access_token'' \<mapsto> PNone)) ''access_token'' = Some PNone"
    by simp_all
  have t1: "\<not> truthy (PStr [])" and t2: "\<not> truthy PNone" by simp_all
  show ?thesis
    using notify_backend_token_falsy
            [where session_data = "sample_session(''access_token'' \<mapsto> PStr [])" and v = "PStr []",
             OF h1 t1, THEN conjunct1]
          notify_backend_token_falsy
            [where session_data = "sample_session(''access_token'' \<mapsto> PNone)" and v = PNone,
             OF h2 t2, THEN conjunct1]
    by (rule conjI)
qed

text \<open>
  Claim C7. After a successful token exchange: with an output path set (and a string
  token, on a file that opens) the file operations are opening that path and writing the
  token, so the file then holds exactly the token; with no output path there is no file
  operation and every file is as before; in both cases the session data of the SDK is
  returned as it is.
\<close>

theorem generate_access_token_file_write:
  assumes "kite_generate_session w (api_key cfg) request_token (api_secret cfg) = Inr session_data"
  shows "(token_output_path cfg = Some path \<and> path \<noteq> []
            \<and> session_data ''access_token'' = Some (PStr tok) \<and> file_open w path = None \<longrightarrow>
            generate_access_token w cfg request_token =
              ([KiteGenerateSession (api_key cfg) request_token (api_secret cfg),
                FileOpen path, FileWrite path tok], Inr session_data)
            \<and> filter is_file_event (fst (generate_access_token w cfg request_token)) =
                [FileOpen path, FileWrite path tok]
            \<and> files_after (fst (generate_access_token w cfg request_token)) fs =
                fs(path \<mapsto> tok))
       \<and> (token_output_path cfg = None \<and> session_data ''access_token'' = Some v \<longrightarrow>
            generate_access_token w cfg request_token =
              ([KiteGenerateSession (api_key cfg) request_token (api_secret cfg)], Inr session_data)
            \<and> filter is_file_event (fst (generate_access_token w cfg request_token)) = []
            \<and> files_after (fst (generate_access_token w cfg request_token)) fs = fs)"
  using assms by (simp add: generate_access_token_def)

lemma generate_access_token_no_path_no_file_event:
  "token_output_path cfg = None \<Longrightarrow>
     filter is_file_event (fst (generate_access_token w cfg request_token)) = []"
  by (simp add: generate_access_token_def split: sum.splits option.splits)

theorem generate_access_token_file_write_witness:
  "generate_access_token
     (scripted_world ''rt'' sample_session [] (Raised (OtherException ''unused'')))
     (sample_cfg (Some ''token.txt'')) ''rt'' =
     ([KiteGenerateSession ''key'' ''rt'' ''secret'', FileOpen ''token.txt'',
       FileWrite ''token.txt'' ''tok''], Inr sample_session)
   \<and> files_after (fst (generate_access_token
        (scripted_world ''rt'' sample_session [] (Raised (OtherException ''unused'')))
        (sample_cfg (Some ''token.txt'')) ''rt'')) [''token.txt'' \<mapsto> ''old''] ''token.txt'' =
       Some ''tok''
   \<and> generate_access_token
     (scripted_world ''rt'' sample_session [] (Raised (OtherException ''unused'')))
     (sample_cfg None) ''rt'' =
     ([KiteGenerateSession ''key'' ''rt'' ''secret''], Inr sample_session)"
proof -
  let ?w = "scripted_world ''rt'' sample_session [] (Raised (OtherException ''unused''))"
  have k1: "kite_generate_session ?w (api_key (sample_cfg (Some ''token.txt''))) ''rt''
              (api_secret (sample_cfg (Some ''token.txt''))) = Inr sample_session"
    by (simp add: scripted_world_def)
  have k2: "kite_generate_session ?w (api_key (sample_cfg None)) ''rt''
              (api_secret (sample_cfg None)) = Inr sample_session"
    by (simp add: scripted_world_def)
  have p1: "token_output_path (sample_cfg (Some ''token.txt'')) = Some ''token.txt''
            \<and> ''token.txt'' \<noteq> []
            \<and> sample_session ''access_token'' = Some (PStr ''tok'')
            \<and> file_open ?w ''token.txt'' = None"
    by (simp add: sample_cfg_def sample_session_def scripted_world_def)
  have p2: "token_output_path (sample_cfg None) = None
            \<and> sample_session ''access_token'' = Some (PStr ''tok'')"
    by (simp add: sample_cfg_def sample_session_def)
  note a = generate_access_token_file_write
             [OF k1, of "''token.txt''" "''tok''" "[''token.txt'' \<mapsto> ''old'']" "PStr ''tok''",
              THEN conjunct1, THEN mp, OF p1]
  note b = generate_access_token_file_write
             [OF k2, of "''token.txt''" "''tok''" "[''token.txt'' \<mapsto> ''old'']" "PStr ''tok''",
              THEN conjunct2, THEN mp, OF p2]
  have a1: "generate_access_token ?w (sample_cfg (Some ''token.txt'')) ''rt'' =
     ([KiteGenerateSession ''key'' ''rt'' ''secret'', FileOpen ''token.txt'',
       FileWrite ''token.txt'' ''tok''], Inr sample_session)"
    using a [THEN conjunct1] by (simp add: sample_cfg_def)
  have a3: "files_after (fst (generate_access_token ?w (sample_cfg (Some ''token.txt'')) ''rt''))
              [''token.txt'' \<mapsto> ''old''] ''token.txt'' = Some ''tok''"
    using a [THEN conjunct2, THEN conjunct2] by simp
  have b1: "generate_access_token ?w (sample_cfg None) ''rt'' =
     ([KiteGenerateSession ''key'' ''rt'' ''secret''], Inr sample_session)"
    using b [THEN conjunct1] by (simp add: sample_cfg_def)
  show ?thesis
    by (rule conjI [OF a1 conjI [OF a3 b1]])
qed

lemma server_error_post_failed: "server_or_connection_error out \<Longrightarrow> post_failed out"
  by (cases out) (simp_all add: ok_def)

lemma post_failed_retried: "post_failed out \<Longrightarrow> retried out"
  by (cases out) simp_all

lemma try_post_retry_iff: "snd (try_post w url p a n) = Retry \<longleftrightarrow> retried (http_post w n)"
  by (cases "http_post w n") (auto simp: try_post_def on_exception_def split: sum.splits)

lemma time_sleep_valid: "0 \<le> secs \<Longrightarrow> secs \<le> sleep_limit \<Longrightarrow> time_sleep secs = None"
  by (simp add: time_sleep_def sleep_limit_def)

lemma try_post_retried:
  assumes "retried (http_post w n)"
  shows "\<exists>m. try_post w url p a n = ([HttpPost url p 20, Print m], Retry)"
proof (cases "http_post w n")
  case (Returned r)
  with assms show ?thesis
    by (auto simp: try_post_def on_exception_def split: sum.splits if_splits)
next
  case (Raised e)
  with assms show ?thesis by (simp add: try_post_def on_exception_def)
qed

lemma try_post_shape:
  "\<exists>t r. try_post w url p a n = (HttpPost url p 20 # t, r) \<and> effects t = []
          \<and> (\<forall>e \<in> set t. \<not> is_post e)"
  by (cases "http_post w n")
     (auto simp: try_post_def on_exception_def effects_def split: sum.splits)

lemma effects_append: "effects (s @ t) = effects s @ effects t"
  by (simp add: effects_def)

lemma fst_prepend: "fst (prepend t c) = t @ fst c"
  by (cases c) simp

lemma snd_prepend: "snd (prepend t c) = snd c"
  by (cases c) simp

lemma notify_attempts_retry_step:
  assumes "retried (http_post w n)" "a < mr" "0 \<le> rd * a" "rd * a \<le> sleep_limit"
  shows "effects (fst (notify_attempts w url p mr rd n (a # as))) =
           HttpPost url p 20 # Sleep (rd * a) #
             effects (fst (notify_attempts w url p mr rd (Suc n) as))"
    and "snd (notify_attempts w url p mr rd n (a # as)) =
           snd (notify_attempts w url p mr rd (Suc n) as)"
proof -
  obtain m where t: "try_post w url p a n = ([HttpPost url p 20, Print m], Retry)"
    using try_post_retried [OF assms(1)] by blast
  have s: "time_sleep (rd * a) = None" using assms(3,4) by (rule time_sleep_valid)
  show "effects (fst (notify_attempts w url p mr rd n (a # as))) =
           HttpPost url p 20 # Sleep (rd * a) #
             effects (fst (notify_attempts w url p mr rd (Suc n) as))"
    using assms(2) s by (simp add: t Let_def fst_prepend effects_append) (simp add: effects_def)
  show "snd (notify_attempts w url p mr rd n (a # as)) =
           snd (notify_attempts w url p mr rd (Suc n) as)"
    using assms(2) s by (simp add: t Let_def snd_prepend)
qed

lemma notify_attempts_last_step:
  assumes "retried (http_post w n)" "\<not> a < mr"
  shows "effects (fst (notify_attempts w url p mr rd n (a # as))) =
           HttpPost url p 20 # effects (fst (notify_attempts w url p mr rd (Suc n) as))"
    and "snd (notify_attempts w url p mr rd n (a # as)) =
           snd (notify_attempts w url p mr rd (Suc n) as)"
proof -
  obtain m where t: "try_post w url p a n = ([HttpPost url p 20, Print m], Retry)"
    using try_post_retried [OF assms(1)] by blast
  show "effects (fst (notify_attempts w url p mr rd n (a # as))) =
           HttpPost url p 20 # effects (fst (notify_attempts w url p mr rd (Suc n) as))"
    using assms(2) by (simp add: t fst_prepend effects_append) (simp add: effects_def)
  show "snd (notify_attempts w url p mr rd n (a # as)) =
           snd (notify_attempts w url p mr rd (Suc n) as)"
    using assms(2) by (simp add: t snd_prepend)
qed

lemma upto_1_3: "[1..3] = [1, 2, 3::int]"
  by (simp add: upto_rec1)

lemmas run_eval = notify_backend_unfold dict_get_def sample_session_def sample_cfg_def
  make_payload_def scripted_world_def scripted_def status_response_def try_post_def
  on_exception_def ok_def upto_1_3 Let_def time_sleep_def sleep_limit_def

text \<open>
  Claim C1. With the defaults (3 retries, delay 5) and a truthy token, when each of the
  three POSTs returns a 5xx status or raises a connection error, the effects of
  \<open>notify_backend\<close> are exactly POST, sleep 5, POST, sleep 10, POST, and it raises the
  terminal \<open>RuntimeError\<close>.
\<close>

theorem notify_backend_three_failures:
  assumes "truthy (dict_get session_data ''access_token'')"
      and "server_or_connection_error (http_post w 0)"
      and "server_or_connection_error (http_post w 1)"
      and "server_or_connection_error (http_post w 2)"
  shows "effects (fst (notify_backend w cfg session_data 3 5)) =
           [HttpPost (backend_update_url cfg) (make_payload cfg session_data) 20, Sleep 5,
            HttpPost (backend_update_url cfg) (make_payload cfg session_data) 20, Sleep 10,
            HttpPost (backend_update_url cfg) (make_payload cfg session_data) 20]
         \<and> snd (notify_backend w cfg session_data 3 5) =
             Inl (RuntimeError ''Unable to update backend with new access token after retries'')"
proof -
  let ?url = "backend_update_url cfg" and ?p = "make_payload cfg session_data"
  have f0: "retried (http_post w 0)" and f1: "retried (http_post w (Suc 0))"
    and f2: "retried (http_post w (Suc (Suc 0)))"
    using assms(2-4)
    by (simp_all add: server_error_post_failed post_failed_retried numeral_2_eq_2)
  have nb: "notify_backend w cfg session_data 3 5 = notify_attempts w ?url ?p 3 5 0 [1, 2, 3]"
    using assms(1) by (simp add: notify_backend_unfold upto_1_3)
  have s1: "(1::int) < 3" "(0::int) \<le> 5 * 1" "(5::int) * 1 \<le> sleep_limit"
    and s2: "(2::int) < 3" "(0::int) \<le> 5 * 2" "(5::int) * 2 \<le> sleep_limit"
    and s3: "\<not> (3::int) < 3"
    by (simp_all add: sleep_limit_def)
  note a1 = notify_attempts_retry_step [OF f0 s1, of ?url ?p "[2, 3]"]
  note a2 = notify_attempts_retry_step [OF f1 s2, of ?url ?p "[3]"]
  note a3 = notify_attempts_last_step [OF f2 s3, of ?url ?p 5 "[]"]
  have e: "effects (fst (notify_attempts w ?url ?p 3 5 0 [1, 2, 3])) =
             [HttpPost ?url ?p 20, Sleep 5, HttpPost ?url ?p 20, Sleep 10, HttpPost ?url ?p 20]"
    unfolding a1(1) a2(1) a3(1) by (simp add: effects_def)
  have r: "snd (notify_attempts w ?url ?p 3 5 0 [1, 2, 3]) =
             Inl (RuntimeError ''Unable to update backend with new access token after retries'')"
    unfolding a1(2) a2(2) a3(2) by simp
  show ?thesis
    unfolding nb using e r by (rule conjI)
qed

theorem notify_backend_three_failures_witness:
  "effects (fst (notify_backend
      (scripted_world ''rt'' sample_session
         [status_response 503 ''unavailable'' (Inl (RequestException ''no JSON'')),
          Raised (RequestException ''connection refused'')]
         (status_response 500 ''error'' (Inl (RequestException ''no JSON''))))
      (sample_cfg None) sample_session 3 5)) =
     [HttpPost ''https://backend.example/update'' (make_payload (sample_cfg None) sample_session) 20,
      Sleep 5,
      HttpPost ''https://backend.example/update'' (make_payload (sample_cfg None) sample_session) 20,
      Sleep 10,
      HttpPost ''https://backend.example/update'' (make_payload (sample_cfg None) sample_session) 20]
   \<and> snd (notify_backend
      (scripted_world ''rt'' sample_session
         [status_response 503 ''unavailable'' (Inl (RequestException ''no JSON'')),
          Raised (RequestException ''connection refused'')]
         (status_response 500 ''error'' (Inl (RequestException ''no JSON''))))
      (sample_cfg None) sample_session 3 5) =
     Inl (RuntimeError ''Unable to update backend with new access token after retries'')"
proof -
  let ?w = "scripted_world ''rt'' sample_session
         [status_response 503 ''unavailable'' (Inl (RequestException ''no JSON'')),
          Raised (RequestException ''connection refused'')]
         (status_response 500 ''error'' (Inl (RequestException ''no JSON'')))"
  have t: "truthy (dict_get sample_session ''access_token'')"
    by (simp add: dict_get_def sample_session_def)
  have f: "server_or_connection_error (http_post ?w 0)"
     "server_or_connection_error (http_post ?w 1)"
     "server_or_connection_error (http_post ?w 2)"
    by (simp_all add: scripted_world_def scripted_def status_response_def)
  have u: "backend_update_url (sample_cfg None) = ''https://backend.example/update''"
    by (simp add: sample_cfg_def)
  show ?thesis
    using notify_backend_three_failures [OF t f, of "sample_cfg None"] unfolding u .
qed

text \<open>
  Claim C2 at a first response with status 200 whose body is not JSON: \<^verbatim>\<open>response.json()\<close>
  raises inside the \<^verbatim>\<open>try\<close> block before anything is printed. When the exception is a
  \<^verbatim>\<open>requests.RequestException\<close> the attempt is retried (here three POSTs, two sleeps, and
  the terminal error); when it is not, it leaves \<open>notify_backend\<close> after the first POST.
\<close>

theorem notify_backend_ok_non_json_retried:
  "notify_backend
      (scripted_world ''rt'' sample_session []
         (status_response 200 ''OK'' (Inl (RequestException ''Expecting value''))))
      (sample_cfg None) sample_session 3 5 =
     ([HttpPost ''https://backend.example/update'' (make_payload (sample_cfg None) sample_session) 20,
       Print (UpdateException 1 ''Expecting value''), Print (Retrying 5), Sleep 5,
       HttpPost ''https://backend.example/update'' (make_payload (sample_cfg None) sample_session) 20,
       Print (UpdateException 2 ''Expecting value''), Print (Retrying 10), Sleep 10,
       HttpPost ''https://backend.example/update'' (make_payload (sample_cfg None) sample_session) 20,
       Print (UpdateException 3 ''Expecting value'')],
      Inl (RuntimeError ''Unable to update backend with new access token after retries''))
   \<and> notify_backend
      (scripted_world ''rt'' sample_session []
         (status_response 200 ''OK'' (Inl (OtherException ''Expecting value''))))
      (sample_cfg None) sample_session 3 5 =
     ([HttpPost ''https://backend.example/update'' (make_payload (sample_cfg None) sample_session) 20],
      Inl (OtherException ''Expecting value''))"
  by (simp add: run_eval)

text \<open>
  When the first response is ok and its body parses, \<open>notify_backend\<close> returns after that
  single POST.
\<close>

lemma notify_backend_ok_json_returns:
  assumes "truthy (dict_get session_data ''access_token'')"
      and "http_post w 0 = Returned r" "ok r" "resp_json r = Inr j" "1 \<le> max_retries"
  shows "notify_backend w cfg session_data max_retries retry_delay =
           ([HttpPost (backend_update_url cfg) (make_payload cfg session_data) 20,
             Print (UpdateSucceeded j)], Inr ())"
proof -
  have "[1..max_retries] = 1 # [1 + 1..max_retries]"
    using assms(5) by (simp add: upto_rec1)
  then show ?thesis
    using assms(1-4) by (simp add: notify_backend_unfold try_post_def)
qed






lemma notify_attempts_posts:
  "\<forall>e \<in> set (fst (notify_attempts w url p mr rd n as)). is_post e \<longrightarrow> e = HttpPost url p 20"
proof (induction as arbitrary: n)
  case Nil
  then show ?case by simp
next
  case (Cons a as)
  obtain t r where t: "try_post w url p a n = (HttpPost url p 20 # t, r)"
    and np: "\<forall>e \<in> set t. \<not> is_post e"
    using try_post_shape by blast
  show ?case
    using Cons.IH [of "Suc n"] np
    by (cases r) (auto simp: t Let_def fst_prepend split: option.splits)
qed

text \<open>
  Claim C6. Every POST in the trace of \<open>notify_backend\<close> goes to the configured backend
  URL with the payload and a timeout of 20 seconds; the payload has exactly the keys
  \<open>user_id\<close>, \<open>access_token\<close>, \<open>expires_in\<close>, \<open>expires_at\<close>, \<open>source\<close>, the first and last from
  the configuration, the others from \<open>session_data\<close> (\<open>None\<close> for a key that is absent).
\<close>

theorem notify_backend_post_shape:
  "(\<forall>e \<in> set (fst (notify_backend w cfg session_data max_retries retry_delay)).
      is_post e \<longrightarrow>
        e = HttpPost (backend_update_url cfg) (make_payload cfg session_data) 20)
   \<and> map fst (make_payload cfg session_data) =
       [''user_id'', ''access_token'', ''expires_in'', ''expires_at'', ''source'']
   \<and> map_of (make_payload cfg session_data) ''user_id'' = Some (PStr (user_id cfg))
   \<and> map_of (make_payload cfg session_data) ''source'' = Some (PStr (backend_source_label cfg))
   \<and> map_of (make_payload cfg session_data) ''access_token'' =
       Some (case session_data ''access_token'' of None \<Rightarrow> PNone | Some v \<Rightarrow> v)
   \<and> map_of (make_payload cfg session_data) ''expires_in'' =
       Some (case session_data ''expires_in'' of None \<Rightarrow> PNone | Some v \<Rightarrow> v)
   \<and> map_of (make_payload cfg session_data) ''expires_at'' =
       Some (case session_data ''expires_at'' of None \<Rightarrow> PNone | Some v \<Rightarrow> v)"
proof -
  have "\<forall>e \<in> set (fst (notify_backend w cfg session_data max_retries retry_delay)).
      is_post e \<longrightarrow>
        e = HttpPost (backend_update_url cfg) (make_payload cfg session_data) 20"
    using notify_attempts_posts by (simp add: notify_backend_unfold)
  then show ?thesis
    by (simp add: make_payload_def dict_get_def)
qed

theorem notify_backend_post_shape_witness:
  "is_post (hd (fst (notify_backend
      (scripted_world ''rt'' sample_session []
         (status_response 200 ''{}'' (Inr (PDict []))))
      (sample_cfg None) sample_session 3 5)))
   \<and> hd (fst (notify_backend
      (scripted_world ''rt'' sample_session []
         (status_response 200 ''{}'' (Inr (PDict []))))
      (sample_cfg None) sample_session 3 5)) =
     HttpPost ''https://backend.example/update''
       [(''user_id'', PStr ''AB1234''), (''access_token'', PStr ''tok''),
        (''expires_in'', PNone), (''expires_at'', PNone), (''source'', PStr ''automation'')] 20"
proof -
  let ?w = "scripted_world ''rt'' sample_session [] (status_response 200 ''{}'' (Inr (PDict [])))"
  let ?run = "notify_backend ?w (sample_cfg None) sample_session 3 5"
  have r: "fst ?run =
     [HttpPost ''https://backend.example/update'' (make_payload (sample_cfg None) sample_session) 20,
      Print (UpdateSucceeded (PDict []))]"
    by (simp add: notify_backend_unfold dict_get_def sample_session_def sample_cfg_def
          scripted_world_def scripted_def status_response_def try_post_def ok_def upto_1_3)
  have m: "hd (fst ?run) \<in> set (fst ?run)" and i: "is_post (hd (fst ?run))"
    by (simp_all add: r)
  note s = notify_backend_post_shape [of ?w "sample_cfg None" sample_session 3 5, THEN conjunct1]
  have e: "hd (fst ?run) =
             HttpPost (backend_update_url (sample_cfg None))
               (make_payload (sample_cfg None) sample_session) 20"
    using s m i by blast
  have p: "HttpPost (backend_update_url (sample_cfg None))
               (make_payload (sample_cfg None) sample_session) 20 =
           HttpPost ''https://backend.example/update''
       [(''user_id'', PStr ''AB1234''), (''access_token'', PStr ''tok''),
        (''expires_in'', PNone), (''expires_at'', PNone), (''source'', PStr ''automation'')] 20"
    by (simp add: make_payload_def sample_cfg_def dict_get_def sample_session_def)
  show ?thesis
    using i e p by simp
qed

end
